theory Spec2Isabelle
  imports Complex_Main "HOL-Library.Multiset"
begin

section \<open>Threshold NM/EN ratio analyzer: the numeric core\<close>

text \<open>
  The analyzer is a Jython (Python 2) macro. Its numeric code works on Python floats
  and on Java \<open>double[]\<close> profiles; here a float is a \<open>real\<close> (IEEE rounding is
  idealised away), a Python \<open>int\<close> is an \<open>int\<close>, a list or Java array is a list.
  Every exception the numeric code can raise is a value of \<open>error\<close>.
\<close>

datatype error = ZeroDivisionError | IndexError | ValueError

subsection \<open>Python primitives used by the source\<close>

text \<open>\<open>int(x)\<close> on a float truncates toward zero.\<close>

definition py_int :: "real \<Rightarrow> int" where
  "py_int x = (if 0 \<le> x then \<lfloor>x\<rfloor> else \<lceil>x\<rceil>)"

text \<open>Python 2 \<open>round(x)\<close>: nearest integer, a tie goes away from zero; the result is a float.\<close>

definition py_round :: "real \<Rightarrow> real" where
  "py_round x = (if 0 \<le> x then of_int \<lfloor>x + 1 / 2\<rfloor> else of_int \<lceil>x - 1 / 2\<rceil>)"

text \<open>\<open>xs[i]\<close>: a negative index counts from the end, an index outside the list raises.\<close>

definition py_index :: "'a list \<Rightarrow> int \<Rightarrow> error + 'a" where
  "py_index xs i =
     (let j = (if i < 0 then i + int (length xs) else i)
      in if 0 \<le> j \<and> j < int (length xs) then Inr (xs ! nat j) else Inl IndexError)"

text \<open>A slice bound: a negative bound counts from the end, and every bound is clipped
  to the list.\<close>

definition slice_bound :: "nat \<Rightarrow> int \<Rightarrow> nat" where
  "slice_bound n i = (if i < 0 then nat (max (i + int n) 0) else min (nat i) n)"

text \<open>\<open>xs[i:j]\<close> and \<open>xs[i:]\<close>.\<close>

definition py_slice :: "'a list \<Rightarrow> int \<Rightarrow> int \<Rightarrow> 'a list" where
  "py_slice xs i j =
     (let lo = slice_bound (length xs) i; hi = slice_bound (length xs) j
      in take (hi - lo) (drop lo xs))"

definition py_slice_from :: "'a list \<Rightarrow> int \<Rightarrow> 'a list" where
  "py_slice_from xs i = drop (slice_bound (length xs) i) xs"

text \<open>\<open>a / b\<close> on floats raises when \<open>b\<close> is zero; \<open>math.sqrt\<close> raises below zero.\<close>

definition py_div :: "real \<Rightarrow> real \<Rightarrow> error + real" where
  "py_div a b = (if b = 0 then Inl ZeroDivisionError else Inr (a / b))"

definition py_sqrt :: "real \<Rightarrow> error + real" where
  "py_sqrt x = (if x < 0 then Inl ValueError else Inr (sqrt x))"

text \<open>Sequencing: an exception in the first computation skips the rest.\<close>

definition bind_err :: "error + 'a \<Rightarrow> ('a \<Rightarrow> error + 'b) \<Rightarrow> error + 'b" where
  "bind_err m f = (case m of Inl e \<Rightarrow> Inl e | Inr v \<Rightarrow> f v)"

text \<open>\<open>for i in ...: body\<close> over a state, stopping at the first exception.\<close>

fun for_each :: "('s \<Rightarrow> 'a \<Rightarrow> error + 's) \<Rightarrow> 'a list \<Rightarrow> 's \<Rightarrow> error + 's" where
  "for_each body [] s = Inr s"
| "for_each body (i # is) s =
     bind_err (body s i) (\<lambda>s'. for_each body is s')"

subsection \<open>Top-percent selection (lines 358-363 and 460-466)\<close>

text \<open>
  \<^verbatim>\<open>
  sorted_values = sorted(segment_values)
  threshold_idx = int(len(sorted_values) * (1.0 - self.threshold_percentage / 100.0))
  top_values = sorted_values[threshold_idx:]
  stroke_avg = sum(top_values) / float(len(top_values))
  \<close>
  The same four lines compute the cytoplasm mean from the whole profile.
\<close>

definition threshold_idx :: "real \<Rightarrow> real list \<Rightarrow> int" where
  "threshold_idx threshold_percentage values =
     py_int (real (length (sort values)) * (1 - threshold_percentage / 100))"

definition top_values :: "real \<Rightarrow> real list \<Rightarrow> real list" where
  "top_values threshold_percentage values =
     py_slice_from (sort values) (threshold_idx threshold_percentage values)"

definition stroke_avg :: "real \<Rightarrow> real list \<Rightarrow> error + real" where
  "stroke_avg threshold_percentage values =
     (let tv = top_values threshold_percentage values
      in py_div (sum_list tv) (real (length tv)))"

subsection \<open>Segment boundaries (lines 484-507)\<close>

text \<open>
  \<^verbatim>\<open>
  for i in range(1, n_anchors):
      dx = x_coords[i] - x_coords[i-1]
      dy = y_coords[i] - y_coords[i-1]
      segment_distance = math.sqrt(dx*dx + dy*dy)
      total_distance += segment_distance
      anchor_distances.append(total_distance)
  \<close>
  The loop state is \<open>(anchor_distances, total_distance)\<close>.
\<close>

definition distance_step ::
  "int list \<Rightarrow> int list \<Rightarrow> real list \<times> real \<Rightarrow> nat \<Rightarrow> error + real list \<times> real" where
  "distance_step x_coords y_coords st i =
     bind_err (py_index x_coords (int i)) (\<lambda>x_i.
     bind_err (py_index x_coords (int i - 1)) (\<lambda>x_p.
     bind_err (py_index y_coords (int i)) (\<lambda>y_i.
     bind_err (py_index y_coords (int i - 1)) (\<lambda>y_p.
       let dx = x_i - x_p; dy = y_i - y_p
       in bind_err (py_sqrt (real_of_int (dx * dx + dy * dy))) (\<lambda>segment_distance.
            let total_distance = snd st + segment_distance
            in Inr (fst st @ [total_distance], total_distance))))))"

text \<open>
  \<^verbatim>\<open>
  for i in range(n_anchors):
      idx = int(round((anchor_distances[i] / total_distance) * (profile_length - 1)))
      if idx >= profile_length:
          idx = profile_length - 1
      boundaries.append(idx)
  \<close>
\<close>

definition boundary_step ::
  "real list \<Rightarrow> real \<Rightarrow> int \<Rightarrow> int list \<Rightarrow> nat \<Rightarrow> error + int list" where
  "boundary_step anchor_distances total_distance profile_length boundaries i =
     bind_err (py_index anchor_distances (int i)) (\<lambda>d.
     bind_err (py_div d total_distance) (\<lambda>q.
       let idx = py_int (py_round (q * real_of_int (profile_length - 1)));
           idx = (if idx \<ge> profile_length then profile_length - 1 else idx)
       in Inr (boundaries @ [idx])))"

definition calculate_segment_boundaries :: "int list \<Rightarrow> int list \<Rightarrow> int \<Rightarrow> error + int list" where
  "calculate_segment_boundaries x_coords y_coords profile_length =
     (let n_anchors = length x_coords
      in bind_err (for_each (distance_step x_coords y_coords) [1..<n_anchors] ([0], 0))
           (\<lambda>(anchor_distances, total_distance).
              for_each (boundary_step anchor_distances total_distance profile_length)
                [0..<n_anchors] []))"


subsection \<open>Nuclear membrane measurement (lines 307-386)\<close>

text \<open>
  The host supplies the traced selection and the intensity profile along it. \<open>None\<close>
  for the selection stands for "no selection, or not a polyline", \<open>None\<close> for the
  profile for a null profile. A result \<open>Inr None\<close> is the source's \<open>return None\<close>
  after an error message.
\<close>

record polygon =
  xpoints :: "int list"
  ypoints :: "int list"
  npoints :: int

record stroke_info =
  segment_number :: int
  start_index :: int
  end_index :: int
  raw_values :: "real list"
  stroke_top_values :: "real list"
  stroke_average :: real

record nuclear_data =
  full_profile :: "real list"
  segment_boundaries :: "int list"
  stroke_data :: "stroke_info list"
  stroke_averages :: "real list"
  overall_mean :: real
  n_segments :: nat

text \<open>\<open>full_profile[start_idx:end_idx + 1]\<close> for segment \<open>seg\<close> (lines 346-351).\<close>

definition segment_values :: "real list \<Rightarrow> int list \<Rightarrow> nat \<Rightarrow> error + real list" where
  "segment_values profile boundaries seg =
     bind_err (py_index boundaries (int seg)) (\<lambda>start_idx.
     bind_err (py_index boundaries (int seg + 1)) (\<lambda>end_idx.
       Inr (py_slice profile start_idx (end_idx + 1))))"

text \<open>The body of the loop over the segments; its state is
  \<open>(stroke_data, stroke_averages)\<close>. An empty segment is skipped (\<open>continue\<close>).\<close>

definition stroke_step ::
  "real \<Rightarrow> real list \<Rightarrow> int list \<Rightarrow> stroke_info list \<times> real list \<Rightarrow> nat
     \<Rightarrow> error + stroke_info list \<times> real list" where
  "stroke_step tp profile boundaries st seg =
     bind_err (py_index boundaries (int seg)) (\<lambda>start_idx.
     bind_err (py_index boundaries (int seg + 1)) (\<lambda>end_idx.
       let seg_values = py_slice profile start_idx (end_idx + 1)
       in if length seg_values = 0 then Inr st
          else bind_err (stroke_avg tp seg_values) (\<lambda>avg.
                 Inr (fst st @
                        [\<lparr>segment_number = int seg + 1, start_index = start_idx,
                          end_index = end_idx, raw_values = seg_values,
                          stroke_top_values = top_values tp seg_values,
                          stroke_average = avg\<rparr>],
                      snd st @ [avg]))))"

definition measure_nuclear_membrane_detailed ::
  "real \<Rightarrow> polygon option \<Rightarrow> real list option \<Rightarrow> error + nuclear_data option" where
  "measure_nuclear_membrane_detailed tp roi pp_profile =
     (case roi of None \<Rightarrow> Inr None | Some pg \<Rightarrow>
        if npoints pg < 2 then Inr None
        else (case pp_profile of None \<Rightarrow> Inr None | Some profile \<Rightarrow>
          if length profile = 0 then Inr None
          else
            bind_err (calculate_segment_boundaries (xpoints pg) (ypoints pg)
                        (int (length profile))) (\<lambda>boundaries.
            bind_err (for_each (stroke_step tp profile boundaries)
                        [0..<nat (npoints pg - 1)] ([], [])) (\<lambda>(sd, sa).
              if length sa = 0 then Inr None
              else bind_err (py_div (sum_list sa) (real (length sa))) (\<lambda>om.
                     Inr (Some \<lparr>full_profile = profile, segment_boundaries = boundaries,
                                stroke_data = sd, stroke_averages = sa,
                                overall_mean = om, n_segments = length sa\<rparr>))))))"

subsection \<open>Cytoplasm measurement (lines 440-482)\<close>

record cytoplasm_data =
  raw_profile :: "real list"
  cyto_top_values :: "real list"
  threshold_value :: real
  cyto_mean :: real

definition measure_cytoplasm_detailed ::
  "real \<Rightarrow> bool \<Rightarrow> real list option \<Rightarrow> error + cytoplasm_data option" where
  "measure_cytoplasm_detailed tp roi_is_polyline pp_profile =
     (if \<not> roi_is_polyline then Inr None
      else (case pp_profile of None \<Rightarrow> Inr None | Some profile \<Rightarrow>
        if length profile = 0 then Inr None
        else
          let sorted_profile = sort profile;
              t_idx = threshold_idx tp profile;
              tv = py_slice_from sorted_profile t_idx
          in bind_err (if t_idx < int (length sorted_profile)
                       then py_index sorted_profile t_idx else Inr 0) (\<lambda>tval.
             bind_err (py_div (sum_list tv) (real (length tv))) (\<lambda>c_mean.
               Inr (Some \<lparr>raw_profile = profile, cyto_top_values = tv,
                          threshold_value = tval, cyto_mean = c_mean\<rparr>)))))"

subsection \<open>Ratio policy (lines 262 and 642)\<close>

text \<open>\<^verbatim>\<open>nuclear_mean / cytoplasm_mean if cytoplasm_mean > 0 else 0\<close>\<close>

definition ratio :: "real \<Rightarrow> real \<Rightarrow> error + real" where
  "ratio nuclear_mean cytoplasm_mean =
     (if cytoplasm_mean > 0 then py_div nuclear_mean cytoplasm_mean else Inr 0)"

record cell_data =
  cell_number :: int
  cell_nuclear_data :: nuclear_data
  cell_cytoplasm_data :: cytoplasm_data
  nuclear_mean :: real
  cytoplasm_mean :: real
  cell_ratio :: real

text \<open>\<open>analyze_single_cell\<close> (lines 243-266): the nuclear membrane first, the cytoplasm
  only when that gave a result.\<close>

definition analyze_single_cell ::
  "real \<Rightarrow> int \<Rightarrow> polygon option \<Rightarrow> real list option \<Rightarrow> bool \<Rightarrow> real list option
     \<Rightarrow> error + cell_data option" where
  "analyze_single_cell tp cell_count n_roi n_profile c_roi c_profile =
     (case measure_nuclear_membrane_detailed tp n_roi n_profile of Inl e \<Rightarrow> Inl e
      | Inr None \<Rightarrow> Inr None
      | Inr (Some nd) \<Rightarrow>
          (case measure_cytoplasm_detailed tp c_roi c_profile of Inl e \<Rightarrow> Inl e
           | Inr None \<Rightarrow> Inr None
           | Inr (Some cd) \<Rightarrow>
               bind_err (ratio (overall_mean nd) (cyto_mean cd)) (\<lambda>r.
                 Inr (Some \<lparr>cell_number = cell_count, cell_nuclear_data = nd,
                            cell_cytoplasm_data = cd, nuclear_mean = overall_mean nd,
                            cytoplasm_mean = cyto_mean cd, cell_ratio = r\<rparr>))))"

subsection \<open>Recalculation with another threshold (lines 728-766)\<close>

text \<open>The body of the loop over \<open>nuclear_data['stroke_data']\<close>; its state is
  \<open>stroke_averages\<close>.\<close>

definition recalculate_step :: "real \<Rightarrow> real list \<Rightarrow> stroke_info \<Rightarrow> error + real list" where
  "recalculate_step threshold_percent averages stroke =
     (if length (raw_values stroke) = 0 then Inr averages
      else
        let tv = top_values threshold_percent (raw_values stroke)
        in if length tv > 0 then
             bind_err (py_div (sum_list tv) (real (length tv)))
               (\<lambda>avg. Inr (averages @ [avg]))
           else Inr averages)"

definition recalculate_nuclear_mean_with_threshold :: "nuclear_data \<Rightarrow> real \<Rightarrow> error + real" where
  "recalculate_nuclear_mean_with_threshold nd threshold_percent =
     bind_err (for_each (recalculate_step threshold_percent) (stroke_data nd) [])
       (\<lambda>averages.
          if length averages > 0 then py_div (sum_list averages) (real (length averages))
          else Inr 0)"

definition recalculate_cytoplasm_mean_with_threshold ::
  "cytoplasm_data \<Rightarrow> real \<Rightarrow> error + real" where
  "recalculate_cytoplasm_mean_with_threshold cd threshold_percent =
     (if length (raw_profile cd) = 0 then Inr 0
      else
        let tv = top_values threshold_percent (raw_profile cd)
        in if length tv > 0 then py_div (sum_list tv) (real (length tv)) else Inr 0)"

text \<open>One cell and one fixed threshold of the comparison sheet (lines 634-642).\<close>

definition threshold_comparison_entry :: "cell_data \<Rightarrow> real \<Rightarrow> error + real \<times> real \<times> real" where
  "threshold_comparison_entry c threshold =
     bind_err (recalculate_nuclear_mean_with_threshold (cell_nuclear_data c) threshold)
       (\<lambda>nm.
     bind_err (recalculate_cytoplasm_mean_with_threshold (cell_cytoplasm_data c) threshold)
       (\<lambda>cm.
     bind_err (ratio nm cm) (\<lambda>r. Inr (nm, cm, r))))"

subsection \<open>Standard error (lines 1265-1276)\<close>

definition calculate_se :: "real list \<Rightarrow> error + real" where
  "calculate_se data =
     (if length data \<le> 1 then Inr 0
      else
        bind_err (py_div (sum_list data) (real (length data))) (\<lambda>mean.
          let sum_squared_diff = sum_list (map (\<lambda>x. (x - mean) ^ 2) data)
          in bind_err (py_div sum_squared_diff (real (length data - 1))) (\<lambda>variance.
             bind_err (py_sqrt variance) (\<lambda>std_dev.
             bind_err (py_sqrt (real (length data))) (\<lambda>root_n.
               py_div std_dev root_n)))))"

subsection \<open>Threshold dialog (lines 187-210)\<close>


record settings_result =
  accepted :: bool
  threshold_percentage :: real
  shown_message :: "string option"


section \<open>Quantities of the specification\<close>

text \<open>
  The claims are stated against the specification's own quantities, defined here from
  its words and compared with the code in the theorems below.
\<close>


definition mean_of :: "real list \<Rightarrow> real" where
  "mean_of xs = sum_list xs / real (length xs)"

text \<open>The Euclidean length of the polyline segment that
  ends at anchor \<open>k\<close>, and \<open>D(i)\<close>, the cumulative distance from the first anchor to
  anchor \<open>i\<close>.\<close>

definition segment_length :: "int list \<Rightarrow> int list \<Rightarrow> nat \<Rightarrow> real" where
  "segment_length xs ys k =
     sqrt (real_of_int ((xs ! k - xs ! (k - 1))\<^sup>2 + (ys ! k - ys ! (k - 1))\<^sup>2))"

definition cumulative_distance :: "int list \<Rightarrow> int list \<Rightarrow> nat \<Rightarrow> real" where
  "cumulative_distance xs ys i = (\<Sum>k = 1..i. segment_length xs ys k)"

section \<open>Properties\<close>

subsection \<open>Sequencing and loops\<close>

lemma bind_err_Inl: "bind_err (Inl e) f = Inl e"
  by (simp add: bind_err_def)

lemma bind_err_Inr: "bind_err (Inr v) f = f v"
  by (simp add: bind_err_def)

lemma for_each_append:
  "for_each body (xs @ ys) s = bind_err (for_each body xs s) (for_each body ys)"
  by (induction xs arbitrary: s) (auto simp: bind_err_def split: sum.splits)

lemma py_index_nat: "i < length xs \<Longrightarrow> py_index xs (int i) = Inr (xs ! i)"
  by (simp add: py_index_def)

lemma py_index_pred: "0 < i \<Longrightarrow> i \<le> length xs \<Longrightarrow> py_index xs (int i - 1) = Inr (xs ! (i - 1))"
  by (auto simp: py_index_def nat_diff_distrib')

lemma py_sqrt_squares:
  "py_sqrt (real_of_int (dx * dx + dy * dy)) = Inr (sqrt (real_of_int (dx\<^sup>2 + dy\<^sup>2)))"
proof -
  have "0 \<le> dx * dx + dy * dy" by simp
  then have "\<not> real_of_int (dx * dx + dy * dy) < 0" by linarith
  then show ?thesis by (simp add: py_sqrt_def power2_eq_square)
qed

lemma distance_step_ok:
  assumes "0 < i" "i < length xs" "i < length ys"
  shows "distance_step xs ys (ad, td) i =
           Inr (ad @ [td + segment_length xs ys i], td + segment_length xs ys i)"
  using assms
  by (simp add: distance_step_def py_index_nat py_index_pred bind_err_Inr py_sqrt_squares
      segment_length_def Let_def del: of_int_add of_int_mult)

lemma distance_loop:
  assumes "b \<le> length xs" "b \<le> length ys" "0 < a" "a \<le> b"
  shows "for_each (distance_step xs ys) [a..<b] (ad, td) =
           Inr (ad @ map (\<lambda>i. td + (\<Sum>k = a..i. segment_length xs ys k)) [a..<b],
                td + (\<Sum>k = a..<b. segment_length xs ys k))"
  using assms(4,1,2)
proof (induction b rule: dec_induct)
  case base
  then show ?case by simp
next
  case (step n)
  have n: "0 < n" "n < length xs" "n < length ys" using step assms(3) by auto
  have eq: "{a..n} = insert n {a..<n}" using step.hyps by auto
  have "for_each (distance_step xs ys) [a..<Suc n] (ad, td) =
          bind_err (for_each (distance_step xs ys) [a..<n] (ad, td))
            (for_each (distance_step xs ys) [n])"
    using step.hyps by (simp add: for_each_append)
  also have "\<dots> = distance_step xs ys
       (ad @ map (\<lambda>i. td + (\<Sum>k = a..i. segment_length xs ys k)) [a..<n],
        td + (\<Sum>k = a..<n. segment_length xs ys k)) n"
    using step by (simp add: bind_err_def split: sum.splits)
  finally show ?case
    using step.hyps by (simp add: distance_step_ok [OF n] eq add.commute)
qed


lemma cumulative_distance_0: "cumulative_distance xs ys 0 = 0"
  by (simp add: cumulative_distance_def)




lemma distance_loop_init:
  assumes "length ys = length xs"
  shows "for_each (distance_step xs ys) [1..<length xs] ([0], 0) =
           Inr (map (cumulative_distance xs ys) [0..<max 1 (length xs)],
                cumulative_distance xs ys (length xs - 1))"
proof (cases "length xs = 0")
  case True
  then show ?thesis by (simp add: cumulative_distance_0)
next
  case False
  then have n: "1 \<le> length xs" by (cases xs) auto
  have set_eq: "{Suc 0..<length xs} = {Suc 0..length xs - Suc 0}" using n by auto
  have upt_eq: "[0..<length xs] = 0 # [1..<length xs]" using False by (simp add: upt_rec)
  have "for_each (distance_step xs ys) [1..<length xs] ([0], 0) =
          Inr ([0] @ map (\<lambda>i. 0 + (\<Sum>k = 1..i. segment_length xs ys k)) [1..<length xs],
               0 + (\<Sum>k = 1..<length xs. segment_length xs ys k))"
    using n assms by (intro distance_loop) auto
  then show ?thesis
    using False by (simp add: cumulative_distance_def set_eq upt_eq max_def)
qed



lemma boundary_loop_zero:
  assumes "0 < n" "0 < length ad"
  shows "for_each (boundary_step ad 0 L) [0..<n] [] = Inl ZeroDivisionError"
proof -
  have "[0..<n] = 0 # [1..<n]" using assms(1) by (simp add: upt_rec)
  moreover have "boundary_step ad 0 L [] 0 = Inl ZeroDivisionError"
    using assms(2) by (simp add: boundary_step_def py_index_def bind_err_def py_div_def)
  ultimately show ?thesis by (simp add: bind_err_Inl)
qed


lemma calculate_segment_boundaries_zero:
  assumes "length ys = length xs" "xs \<noteq> []" "cumulative_distance xs ys (length xs - 1) = 0"
  shows "calculate_segment_boundaries xs ys L = Inl ZeroDivisionError"
proof -
  let ?ad = "map (cumulative_distance xs ys) [0..<max 1 (length xs)]"
  have "calculate_segment_boundaries xs ys L =
          for_each (boundary_step ?ad 0 L) [0..<length xs] []"
    unfolding calculate_segment_boundaries_def Let_def distance_loop_init [OF assms(1)] assms(3)
    by (simp add: bind_err_Inr del: upt_Suc)
  also have "\<dots> = Inl ZeroDivisionError"
    using assms(2) by (intro boundary_loop_zero) auto
  finally show ?thesis .
qed



lemma coincident_distance_zero:
  assumes "\<forall>i<length xs. xs ! i = xs ! 0 \<and> ys ! i = ys ! 0"
  shows "cumulative_distance xs ys (length xs - 1) = 0"
proof -
  have "segment_length xs ys k = 0" if "k \<in> {1..length xs - 1}" for k
  proof -
    have "k < length xs" "k - 1 < length xs" using that by auto
    then have "xs ! k = xs ! (k - 1)" "ys ! k = ys ! (k - 1)" using assms by metis+
    then show ?thesis by (simp add: segment_length_def)
  qed
  then show ?thesis by (simp add: cumulative_distance_def)
qed

text \<open>Whenever all anchors coincide the second loop divides by a zero total distance at
  its first iteration.\<close>

lemma coincident_anchors_zero_division:
  assumes "xs \<noteq> []" "length ys = length xs"
    and "\<forall>i<length xs. xs ! i = xs ! 0 \<and> ys ! i = ys ! 0"
  shows "calculate_segment_boundaries xs ys profile_length = Inl ZeroDivisionError"
  using assms by (intro calculate_segment_boundaries_zero coincident_distance_zero)

subsection \<open>Degenerate polylines\<close>

text \<open>
  Claim C3. When all anchors coincide the total distance is zero and the mapping is
  undefined; the operation should then fail with an error of its own instead of
  dividing by zero. The source has no guard: for the anchors \<open>(3,3), (3,3)\<close> the
  first iteration of the second loop divides \<open>0.0\<close> by \<open>0.0\<close>, Python raises
  \<open>ZeroDivisionError\<close>, and the measurement that called it passes the exception on.
\<close>

theorem degenerate_polyline_divides_by_zero:
  "calculate_segment_boundaries [3, 3] [3, 3] 7 = Inl ZeroDivisionError
   \<and> measure_nuclear_membrane_detailed 50
        (Some \<lparr>xpoints = [3, 3], ypoints = [3, 3], npoints = 2\<rparr>)
        (Some [10, 20, 30, 40, 50, 60, 70]) = Inl ZeroDivisionError"
  by (simp add: measure_nuclear_membrane_detailed_def calculate_segment_boundaries_def
      distance_step_def boundary_step_def bind_err_def py_index_def py_sqrt_def py_div_def
      upt_rec)

subsection \<open>Ratio policy\<close>

text \<open>
  Claim C5 (as the code has it). The nuclear/cytoplasm ratio is the nuclear mean divided
  by the cytoplasm mean when the cytoplasm mean is positive, and 0 when the cytoplasm
  mean is zero or negative; no exception is raised for any pair of means.
\<close>

theorem ratio_positive_else_zero:
  "(0 < cm \<longrightarrow> ratio nm cm = Inr (nm / cm)) \<and> (cm \<le> 0 \<longrightarrow> ratio nm cm = Inr 0)"
  by (simp add: ratio_def py_div_def)

theorem ratio_positive_else_zero_witness:
  "(0::real) < 2 \<and> ratio 5 2 = Inr (5 / 2) \<and> (0::real) \<le> 0 \<and> ratio 5 0 = Inr 0"
  using ratio_positive_else_zero [of 2 5] ratio_positive_else_zero [of 0 5] by simp

text \<open>The claim as stated promises the quotient for every non-zero cytoplasm mean; for
  the means 5 and -2 the guard \<open>cytoplasm_mean > 0\<close> gives 0, not -2.5.\<close>

theorem ratio_negative_cytoplasm_counterexample:
  "(-2::real) \<noteq> 0 \<and> ratio 5 (-2) = Inr 0 \<and> ratio 5 (-2) \<noteq> Inr (5 / (-2))"
  by (simp add: ratio_def)

subsection \<open>Standard error\<close>

text \<open>
  Claim C8. \<open>calculate_se\<close> returns 0 for at most one value, and for two or more
  values the Bessel-corrected standard deviation (divisor \<open>n - 1\<close>) divided by
  \<open>sqrt n\<close>; it never raises.
\<close>

theorem calculate_se_bessel:
  "(length data \<le> 1 \<longrightarrow> calculate_se data = Inr 0) \<and>
   (2 \<le> length data \<longrightarrow>
      calculate_se data =
        Inr (sqrt ((\<Sum>x\<leftarrow>data. (x - sum_list data / real (length data))\<^sup>2)
                     / (real (length data) - 1))
             / sqrt (real (length data))))"
proof (intro conjI impI)
  assume "length data \<le> 1"
  then show "calculate_se data = Inr 0" by (simp add: calculate_se_def)
next
  assume n: "2 \<le> length data"
  let ?m = "sum_list data / real (length data)"
  let ?v = "(\<Sum>x\<leftarrow>data. (x - ?m)\<^sup>2) / (real (length data) - 1)"
  have "0 \<le> (\<Sum>x\<leftarrow>data. (x - ?m)\<^sup>2)" by (rule sum_list_nonneg) auto
  then have v: "\<not> ?v < 0" using n by (simp add: not_less)
  have d: "real (length data - 1) = real (length data) - 1" using n by (simp add: of_nat_diff)
  have ne: "data \<noteq> []" "\<not> length data \<le> 1" "real (length data) - 1 \<noteq> 0"
    using n by auto
  show "calculate_se data = Inr (sqrt ?v / sqrt (real (length data)))"
    using v ne by (simp add: calculate_se_def py_div_def py_sqrt_def bind_err_Inr Let_def d)
qed

theorem calculate_se_bessel_witness:
  "calculate_se [] = Inr 0 \<and> calculate_se [7] = Inr 0
   \<and> calculate_se [2, 4, 6] = Inr (2 / sqrt 3)"
proof -
  have a: "calculate_se [] = Inr 0" using calculate_se_bessel [of "[]"] by simp
  have b: "calculate_se [7] = Inr 0" using calculate_se_bessel [of "[7]"] by simp
  have c: "calculate_se [2, 4, 6] = Inr (2 / sqrt 3)"
    using calculate_se_bessel [of "[2, 4, 6]"] by simp
  show ?thesis using a b c by simp
qed

subsection \<open>Threshold validation\<close>




subsection \<open>Top-percent selection\<close>











subsection \<open>Means of the tails of a sorted list\<close>







subsection \<open>Boundary indices\<close>







subsection \<open>Segments of the profile\<close>

lemma take_drop_map_nth:
  assumes "hi \<le> length xs"
  shows "take (hi - lo) (drop lo xs) = map (\<lambda>k. xs ! k) [lo..<hi]"
proof (rule nth_equalityI)
  show "length (take (hi - lo) (drop lo xs)) = length (map (\<lambda>k. xs ! k) [lo..<hi])"
    using assms by simp
next
  fix i
  assume "i < length (take (hi - lo) (drop lo xs))"
  then show "take (hi - lo) (drop lo xs) ! i = map (\<lambda>k. xs ! k) [lo..<hi] ! i"
    using assms by simp
qed

lemma py_slice_closed:
  assumes "0 \<le> a" "a \<le> b" "b < int (length xs)"
  shows "py_slice xs a (b + 1) = map (\<lambda>k. xs ! k) [nat a..<Suc (nat b)]"
proof -
  have lo: "slice_bound (length xs) a = nat a"
    using assms by (simp add: slice_bound_def)
  have hi: "slice_bound (length xs) (b + 1) = Suc (nat b)"
    using assms by (auto simp: slice_bound_def nat_add_distrib)
  have "Suc (nat b) \<le> length xs" using assms by linarith
  then show ?thesis
    unfolding py_slice_def Let_def lo hi by (rule take_drop_map_nth)
qed

lemma segment_values_closed:
  assumes "Suc i < length bs" "0 \<le> bs ! i" "bs ! i \<le> bs ! Suc i"
    and "bs ! Suc i < int (length profile)"
  shows "segment_values profile bs i =
           Inr (map (\<lambda>k. profile ! k) [nat (bs ! i)..<Suc (nat (bs ! Suc i))])"
proof -
  have i: "i < length bs" using assms(1) by simp
  have "py_index bs (int i + 1) = py_index bs (int (Suc i))" by (simp add: add.commute)
  then have "py_index bs (int i + 1) = Inr (bs ! Suc i)"
    using assms(1) by (simp only: py_index_nat)
  then show ?thesis
    unfolding segment_values_def
    by (simp add: py_index_nat [OF i] bind_err_Inr py_slice_closed [OF assms(2,3,4)])
qed

text \<open>
  Claim C7. For a segment whose two boundaries lie in the profile in order, the values
  of the segment are the profile's entries at the indices from its start boundary to its
  end boundary, both included: \<open>end - start + 1\<close> values, the first at the start
  boundary and the last at the end boundary. The entry at an interior boundary is
  therefore the last value of one segment and the first value of the next.
\<close>

theorem segment_values_inclusive:
  assumes "Suc i < length bs" "0 \<le> bs ! i" "bs ! i \<le> bs ! Suc i"
    and "bs ! Suc i < int (length profile)"
  shows "\<exists>vs. segment_values profile bs i = Inr vs
           \<and> vs = map (\<lambda>k. profile ! k) [nat (bs ! i)..<Suc (nat (bs ! Suc i))]
           \<and> length vs = nat (bs ! Suc i - bs ! i) + 1
           \<and> hd vs = profile ! nat (bs ! i)
           \<and> last vs = profile ! nat (bs ! Suc i)
           \<and> (Suc (Suc i) < length bs \<and> bs ! Suc i \<le> bs ! Suc (Suc i)
                \<and> bs ! Suc (Suc i) < int (length profile)
               \<longrightarrow> (\<exists>ws. segment_values profile bs (Suc i) = Inr ws \<and> hd ws = last vs))"
proof -
  let ?vs = "map (\<lambda>k. profile ! k) [nat (bs ! i)..<Suc (nat (bs ! Suc i))]"
  have le: "nat (bs ! i) \<le> nat (bs ! Suc i)" using assms(2,3) by simp
  have ne: "?vs \<noteq> []" using le by simp
  have len: "length ?vs = nat (bs ! Suc i - bs ! i) + 1"
    using assms(2,3) by (simp add: nat_diff_distrib Suc_diff_le)
  have first: "hd ?vs = profile ! nat (bs ! i)"
    using le by (simp add: hd_map upt_conv_Cons del: upt_Suc)
  have lst: "last ?vs = profile ! nat (bs ! Suc i)"
    using le by simp
  have nxt: "\<exists>ws. segment_values profile bs (Suc i) = Inr ws \<and> hd ws = last ?vs"
    if h: "Suc (Suc i) < length bs" "bs ! Suc i \<le> bs ! Suc (Suc i)"
      "bs ! Suc (Suc i) < int (length profile)"
  proof -
    have nn: "0 \<le> bs ! Suc i" using assms(2,3) by simp
    have le2: "nat (bs ! Suc i) \<le> nat (bs ! Suc (Suc i))" using h(2) by simp
    have "hd (map (\<lambda>k. profile ! k) [nat (bs ! Suc i)..<Suc (nat (bs ! Suc (Suc i)))])
            = profile ! nat (bs ! Suc i)"
      using le2 by (simp add: hd_map upt_conv_Cons del: upt_Suc)
    then show ?thesis
      unfolding segment_values_closed [OF h(1) nn h(2,3)] lst by blast
  qed
  show ?thesis
    unfolding segment_values_closed [OF assms]
    using len first lst nxt by blast
qed

theorem segment_values_inclusive_witness:
  "Suc 0 < length [0, 2, 4 :: int] \<and> (0::int) \<le> [0, 2, 4] ! 0 \<and> [0, 2, 4 :: int] ! 0 \<le> [0, 2, 4] ! Suc 0
   \<and> [0, 2, 4] ! Suc 0 < int (length [10, 20, 30, 40, 50 :: real])
   \<and> segment_values [10, 20, 30, 40, 50] [0, 2, 4] 0 = Inr [10, 20, 30]
   \<and> segment_values [10, 20, 30, 40, 50] [0, 2, 4] 1 = Inr [30, 40, 50]"
proof -
  have a: "segment_values [10, 20, 30, 40, 50] [0, 2, 4] 0 = Inr [10, 20, 30]"
    using segment_values_inclusive [of 0 "[0, 2, 4]" "[10, 20, 30, 40, 50]"]
    by (simp add: upt_rec)
  have b: "segment_values [10, 20, 30, 40, 50] [0, 2, 4] 1 = Inr [30, 40, 50]"
    using segment_values_inclusive [of 1 "[0, 2, 4]" "[10, 20, 30, 40, 50]"]
    by (simp add: upt_rec)
  show ?thesis using a b by simp
qed

subsection \<open>The loop over the segments\<close>

lemma bind_err_eq_Inr:
  "bind_err m f = Inr y \<longleftrightarrow> (\<exists>v. m = Inr v \<and> f v = Inr y)"
  by (cases m) (simp_all add: bind_err_def)

lemma bind_err_InrE:
  assumes "bind_err m f = Inr y"
  obtains v where "m = Inr v" "f v = Inr y"
  using assms by (auto simp: bind_err_eq_Inr)

lemma map_Inr_eq:
  "map (Inr :: 'a \<Rightarrow> error + 'a) xs = map Inr ys \<Longrightarrow> xs = ys"
  by (simp add: inj_map_eq_map)

lemma stroke_step_result:
  assumes "stroke_step tp profile bs (sd, sa) seg = Inr (sd', sa')"
  shows "\<exists>sv. segment_values profile bs seg = Inr sv
           \<and> (if sv = [] then sd' = sd \<and> sa' = sa
               else \<exists>avg. stroke_avg tp sv = Inr avg \<and> sa' = sa @ [avg]
                      \<and> map raw_values sd' = map raw_values sd @ [sv]
                      \<and> map stroke_average sd' = map stroke_average sd @ [avg])"
proof -
  from assms obtain start_idx end_idx where
    i: "py_index bs (int seg) = Inr start_idx" "py_index bs (int seg + 1) = Inr end_idx"
    and body: "(let seg_values = py_slice profile start_idx (end_idx + 1)
       in if length seg_values = 0 then Inr (sd, sa)
          else bind_err (stroke_avg tp seg_values) (\<lambda>avg.
                 Inr (fst (sd, sa) @
                        [\<lparr>segment_number = int seg + 1, start_index = start_idx,
                          end_index = end_idx, raw_values = seg_values,
                          stroke_top_values = top_values tp seg_values,
                          stroke_average = avg\<rparr>],
                      snd (sd, sa) @ [avg]))) = Inr (sd', sa')"
    unfolding stroke_step_def bind_err_eq_Inr by blast
  let ?sv = "py_slice profile start_idx (end_idx + 1)"
  have sv: "segment_values profile bs seg = Inr ?sv"
    by (simp add: segment_values_def i bind_err_Inr)
  show ?thesis
  proof (cases "?sv = []")
    case True
    then show ?thesis using body sv by (simp add: Let_def)
  next
    case False
    then have "bind_err (stroke_avg tp ?sv) (\<lambda>avg.
                 Inr (sd @
                        [\<lparr>segment_number = int seg + 1, start_index = start_idx,
                          end_index = end_idx, raw_values = ?sv,
                          stroke_top_values = top_values tp ?sv,
                          stroke_average = avg\<rparr>],
                      sa @ [avg])) = Inr (sd', sa')"
      using body by (simp add: Let_def)
    then obtain avg where "stroke_avg tp ?sv = Inr avg"
      "sd' = sd @ [\<lparr>segment_number = int seg + 1, start_index = start_idx,
                          end_index = end_idx, raw_values = ?sv,
                          stroke_top_values = top_values tp ?sv,
                          stroke_average = avg\<rparr>]" "sa' = sa @ [avg]"
      unfolding bind_err_eq_Inr by auto
    then show ?thesis using sv False by simp
  qed
qed

lemma stroke_loop_result:
  assumes "for_each (stroke_step tp profile bs) idxs (sd, sa) = Inr (sd', sa')"
  shows "\<exists>segs. map (segment_values profile bs) idxs = map Inr segs
           \<and> map Inr sa' = map Inr sa @ map (stroke_avg tp) (filter (\<lambda>s. s \<noteq> []) segs)
           \<and> map raw_values sd' = map raw_values sd @ filter (\<lambda>s. s \<noteq> []) segs
           \<and> map Inr (map stroke_average sd')
               = map Inr (map stroke_average sd)
                 @ map (stroke_avg tp) (filter (\<lambda>s. s \<noteq> []) segs)"
  using assms
proof (induction idxs arbitrary: sd sa)
  case Nil
  then show ?case by simp
next
  case (Cons seg idxs)
  from Cons.prems obtain sd1 sa1 where
    step: "stroke_step tp profile bs (sd, sa) seg = Inr (sd1, sa1)" and
    rest: "for_each (stroke_step tp profile bs) idxs (sd1, sa1) = Inr (sd', sa')"
    unfolding for_each.simps bind_err_eq_Inr by auto
  from stroke_step_result [OF step] obtain sv where
    sv: "segment_values profile bs seg = Inr sv" and
    eff: "if sv = [] then sd1 = sd \<and> sa1 = sa
          else \<exists>avg. stroke_avg tp sv = Inr avg \<and> sa1 = sa @ [avg]
                 \<and> map raw_values sd1 = map raw_values sd @ [sv]
                 \<and> map stroke_average sd1 = map stroke_average sd @ [avg]"
    by blast
  from Cons.IH [OF rest] obtain segs where
    ih: "map (segment_values profile bs) idxs = map Inr segs"
      "map Inr sa' = map Inr sa1 @ map (stroke_avg tp) (filter (\<lambda>s. s \<noteq> []) segs)"
      "map raw_values sd' = map raw_values sd1 @ filter (\<lambda>s. s \<noteq> []) segs"
      "map Inr (map stroke_average sd')
         = map Inr (map stroke_average sd1)
           @ map (stroke_avg tp) (filter (\<lambda>s. s \<noteq> []) segs)"
    by blast
  show ?case
  proof (cases "sv = []")
    case True
    then show ?thesis
      using sv eff ih by (intro exI [of _ "sv # segs"]) simp
  next
    case False
    then obtain avg where avg: "stroke_avg tp sv = Inr avg" "sa1 = sa @ [avg]"
      "map raw_values sd1 = map raw_values sd @ [sv]"
      "map stroke_average sd1 = map stroke_average sd @ [avg]"
      using eff by auto
    show ?thesis
      using sv False avg(1) ih unfolding avg(2,3,4)
      by (intro exI [of _ "sv # segs"]) simp
  qed
qed

lemma measure_nuclear_unfold:
  assumes "measure_nuclear_membrane_detailed tp (Some pg) (Some profile) = Inr (Some nd)"
  shows "\<not> npoints pg < 2 \<and> profile \<noteq> [] \<and>
    bind_err (calculate_segment_boundaries (xpoints pg) (ypoints pg)
                        (int (length profile))) (\<lambda>boundaries.
            bind_err (for_each (stroke_step tp profile boundaries)
                        [0..<nat (npoints pg - 1)] ([], [])) (\<lambda>(sd, sa).
              if length sa = 0 then Inr None
              else bind_err (py_div (sum_list sa) (real (length sa))) (\<lambda>om.
                     Inr (Some \<lparr>full_profile = profile, segment_boundaries = boundaries,
                                stroke_data = sd, stroke_averages = sa,
                                overall_mean = om, n_segments = length sa\<rparr>)))) = Inr (Some nd)"
proof (cases "npoints pg < 2")
  case True
  then show ?thesis using assms unfolding measure_nuclear_membrane_detailed_def by simp
next
  case False
  show ?thesis
  proof (cases "profile = []")
    case True
    then show ?thesis using assms False unfolding measure_nuclear_membrane_detailed_def by simp
  next
    case n: False
    have "measure_nuclear_membrane_detailed tp (Some pg) (Some profile) =
       bind_err (calculate_segment_boundaries (xpoints pg) (ypoints pg)
                        (int (length profile))) (\<lambda>boundaries.
            bind_err (for_each (stroke_step tp profile boundaries)
                        [0..<nat (npoints pg - 1)] ([], [])) (\<lambda>(sd, sa).
              if length sa = 0 then Inr None
              else bind_err (py_div (sum_list sa) (real (length sa))) (\<lambda>om.
                     Inr (Some \<lparr>full_profile = profile, segment_boundaries = boundaries,
                                stroke_data = sd, stroke_averages = sa,
                                overall_mean = om, n_segments = length sa\<rparr>))))"
      unfolding measure_nuclear_membrane_detailed_def
      using False n by (simp only: option.case if_False length_0_conv)
    then show ?thesis using assms False n by (simp only: simp_thms)
  qed
qed

lemma measure_nuclear_parts:
  assumes "measure_nuclear_membrane_detailed tp (Some pg) (Some profile) = Inr (Some nd)"
  obtains bs sd sa where
    "calculate_segment_boundaries (xpoints pg) (ypoints pg) (int (length profile)) = Inr bs"
    "for_each (stroke_step tp profile bs) [0..<nat (npoints pg - 1)] ([], []) = Inr (sd, sa)"
    "sa \<noteq> []"
    "nd = \<lparr>full_profile = profile, segment_boundaries = bs, stroke_data = sd,
           stroke_averages = sa, overall_mean = sum_list sa / real (length sa),
           n_segments = length sa\<rparr>"
proof -
  note u = measure_nuclear_unfold [OF assms, THEN conjunct2, THEN conjunct2]
  from u obtain bs where
    bs: "calculate_segment_boundaries (xpoints pg) (ypoints pg) (int (length profile)) = Inr bs"
    and r1: "bind_err (for_each (stroke_step tp profile bs)
                        [0..<nat (npoints pg - 1)] ([], [])) (\<lambda>(sd, sa).
              if length sa = 0 then Inr None
              else bind_err (py_div (sum_list sa) (real (length sa))) (\<lambda>om.
                     Inr (Some \<lparr>full_profile = profile, segment_boundaries = bs,
                                stroke_data = sd, stroke_averages = sa,
                                overall_mean = om, n_segments = length sa\<rparr>))) = Inr (Some nd)"
    by (rule bind_err_InrE)
  from r1 obtain st where
    st: "for_each (stroke_step tp profile bs) [0..<nat (npoints pg - 1)] ([], []) = Inr st"
    and r2: "(case st of (sd, sa) \<Rightarrow>
              if length sa = 0 then Inr None
              else bind_err (py_div (sum_list sa) (real (length sa))) (\<lambda>om.
                     Inr (Some \<lparr>full_profile = profile, segment_boundaries = bs,
                                stroke_data = sd, stroke_averages = sa,
                                overall_mean = om, n_segments = length sa\<rparr>))) = Inr (Some nd)"
    by (rule bind_err_InrE)
  obtain sd sa where sts: "st = (sd, sa)" by (cases st)
  have ne: "sa \<noteq> []"
  proof
    assume "sa = []"
    then show False using r2 unfolding sts by simp
  qed
  then have "real (length sa) \<noteq> 0" by simp
  then have "py_div (sum_list sa) (real (length sa)) = Inr (sum_list sa / real (length sa))"
    by (simp only: py_div_def if_False)
  then have "Inr (Some \<lparr>full_profile = profile, segment_boundaries = bs, stroke_data = sd,
           stroke_averages = sa, overall_mean = sum_list sa / real (length sa),
           n_segments = length sa\<rparr>) = (Inr (Some nd) :: error + nuclear_data option)"
    using r2 ne unfolding sts by (simp add: bind_err_Inr)
  then have "nd = \<lparr>full_profile = profile, segment_boundaries = bs, stroke_data = sd,
           stroke_averages = sa, overall_mean = sum_list sa / real (length sa),
           n_segments = length sa\<rparr>"
    by (simp only: sum.inject option.inject)
  then show ?thesis using that bs st ne unfolding sts by blast
qed

lemma measure_nuclear_result:
  assumes "measure_nuclear_membrane_detailed tp (Some pg) (Some profile) = Inr (Some nd)"
  shows "\<exists>segs. map (segment_values profile (segment_boundaries nd))
                    [0..<nat (npoints pg - 1)] = map Inr segs
           \<and> map Inr (stroke_averages nd) = map (stroke_avg tp) (filter (\<lambda>s. s \<noteq> []) segs)
           \<and> map raw_values (stroke_data nd) = filter (\<lambda>s. s \<noteq> []) segs
           \<and> map stroke_average (stroke_data nd) = stroke_averages nd
           \<and> stroke_averages nd \<noteq> []
           \<and> n_segments nd = length (filter (\<lambda>s. s \<noteq> []) segs)
           \<and> overall_mean nd = sum_list (stroke_averages nd) / real (length (stroke_averages nd))"
proof -
  from measure_nuclear_parts [OF assms] obtain bs sd sa where
    loop: "for_each (stroke_step tp profile bs) [0..<nat (npoints pg - 1)] ([], []) = Inr (sd, sa)"
    and sa: "sa \<noteq> []"
    and nd: "nd = \<lparr>full_profile = profile, segment_boundaries = bs, stroke_data = sd,
                   stroke_averages = sa, overall_mean = sum_list sa / real (length sa),
                   n_segments = length sa\<rparr>"
    by blast
  have "\<exists>segs. map (segment_values profile bs) [0..<nat (npoints pg - 1)] = map Inr segs
      \<and> map Inr sa = map (stroke_avg tp) (filter (\<lambda>s. s \<noteq> []) segs)
      \<and> map raw_values sd = filter (\<lambda>s. s \<noteq> []) segs
      \<and> map Inr (map stroke_average sd) = map (stroke_avg tp) (filter (\<lambda>s. s \<noteq> []) segs)"
    using stroke_loop_result [OF loop] by simp
  then obtain segs where
    r1: "map (segment_values profile bs) [0..<nat (npoints pg - 1)] = map Inr segs"
    and r2: "map Inr sa = map (stroke_avg tp) (filter (\<lambda>s. s \<noteq> []) segs)"
    and r3: "map raw_values sd = filter (\<lambda>s. s \<noteq> []) segs"
    and r4: "map Inr (map stroke_average sd) = map (stroke_avg tp) (filter (\<lambda>s. s \<noteq> []) segs)"
    by (elim exE conjE)
  have "map (Inr :: real \<Rightarrow> error + real) (map stroke_average sd) = map Inr sa"
    by (simp only: r4 r2)
  then have eq: "map stroke_average sd = sa" by (rule map_Inr_eq)
  have "length (map (Inr :: real \<Rightarrow> error + real) sa)
          = length (map (stroke_avg tp) (filter (\<lambda>s. s \<noteq> []) segs))"
    by (simp only: r2)
  then have len: "length sa = length (filter (\<lambda>s. s \<noteq> []) segs)" by simp
  have "map (segment_values profile (segment_boundaries nd)) [0..<nat (npoints pg - 1)]
          = map Inr segs
        \<and> map Inr (stroke_averages nd) = map (stroke_avg tp) (filter (\<lambda>s. s \<noteq> []) segs)
        \<and> map raw_values (stroke_data nd) = filter (\<lambda>s. s \<noteq> []) segs
        \<and> map stroke_average (stroke_data nd) = stroke_averages nd
        \<and> stroke_averages nd \<noteq> []
        \<and> n_segments nd = length (filter (\<lambda>s. s \<noteq> []) segs)
        \<and> overall_mean nd = sum_list (stroke_averages nd) / real (length (stroke_averages nd))"
    unfolding nd using r1 r2 r3 eq sa len by simp
  then show ?thesis by (rule exI)
qed

subsection \<open>Recalculation with another threshold\<close>

lemma recalculate_step_eq:
  "recalculate_step t averages stroke =
     Inr (averages @
          (if raw_values stroke \<noteq> [] \<and> top_values t (raw_values stroke) \<noteq> []
           then [mean_of (top_values t (raw_values stroke))] else []))"
  by (simp add: recalculate_step_def Let_def py_div_def bind_err_Inr mean_of_def)

lemma recalculate_loop_eq:
  "for_each (recalculate_step t) strokes averages =
     Inr (averages @
          map (\<lambda>s. mean_of (top_values t (raw_values s)))
            (filter (\<lambda>s. raw_values s \<noteq> [] \<and> top_values t (raw_values s) \<noteq> []) strokes))"
  by (induction strokes arbitrary: averages) (simp_all add: recalculate_step_eq bind_err_Inr)

lemma recalculate_nuclear_mean_eq:
  "recalculate_nuclear_mean_with_threshold nd t =
     Inr (let avgs = map (\<lambda>s. mean_of (top_values t (raw_values s)))
                       (filter (\<lambda>s. raw_values s \<noteq> [] \<and> top_values t (raw_values s) \<noteq> [])
                          (stroke_data nd))
          in if avgs = [] then 0 else sum_list avgs / real (length avgs))"
  by (simp add: recalculate_nuclear_mean_with_threshold_def recalculate_loop_eq bind_err_Inr
      py_div_def Let_def)

subsection \<open>The overall nuclear membrane mean\<close>

text \<open>
  Claim C10. In a completed nuclear membrane measurement the stored per-segment averages
  are the top-percent means of exactly the non-empty segments, in order; there is at
  least one, and the overall mean is their sum divided by their number, so every
  segment counts once whatever its number of pixels and an empty segment adds no term.
  The recalculation with another threshold averages, in the same way, the top-percent
  means of the strokes that have values.
\<close>

theorem overall_mean_unweighted:
  "(measure_nuclear_membrane_detailed tp (Some pg) (Some profile) = Inr (Some nd) \<longrightarrow>
      (\<exists>segs. map (segment_values profile (segment_boundaries nd))
                  [0..<nat (npoints pg - 1)] = map Inr segs
         \<and> map Inr (stroke_averages nd) = map (stroke_avg tp) (filter (\<lambda>s. s \<noteq> []) segs)
         \<and> stroke_averages nd \<noteq> []
         \<and> n_segments nd = length (filter (\<lambda>s. s \<noteq> []) segs)
         \<and> overall_mean nd
             = sum_list (stroke_averages nd) / real (length (stroke_averages nd))))
   \<and> recalculate_nuclear_mean_with_threshold nd' t =
       Inr (let avgs = map (\<lambda>s. mean_of (top_values t (raw_values s)))
                         (filter (\<lambda>s. raw_values s \<noteq> [] \<and> top_values t (raw_values s) \<noteq> [])
                            (stroke_data nd'))
            in if avgs = [] then 0 else sum_list avgs / real (length avgs))"
proof (intro conjI impI)
  assume "measure_nuclear_membrane_detailed tp (Some pg) (Some profile) = Inr (Some nd)"
  from measure_nuclear_result [OF this] obtain segs where
    "map (segment_values profile (segment_boundaries nd)) [0..<nat (npoints pg - 1)]
       = map Inr segs"
    "map Inr (stroke_averages nd) = map (stroke_avg tp) (filter (\<lambda>s. s \<noteq> []) segs)"
    "stroke_averages nd \<noteq> []"
    "n_segments nd = length (filter (\<lambda>s. s \<noteq> []) segs)"
    "overall_mean nd = sum_list (stroke_averages nd) / real (length (stroke_averages nd))"
    by (elim exE conjE)
  then show "\<exists>segs. map (segment_values profile (segment_boundaries nd))
                  [0..<nat (npoints pg - 1)] = map Inr segs
         \<and> map Inr (stroke_averages nd) = map (stroke_avg tp) (filter (\<lambda>s. s \<noteq> []) segs)
         \<and> stroke_averages nd \<noteq> []
         \<and> n_segments nd = length (filter (\<lambda>s. s \<noteq> []) segs)
         \<and> overall_mean nd
             = sum_list (stroke_averages nd) / real (length (stroke_averages nd))"
    by (intro exI [of _ segs] conjI)
next
  show "recalculate_nuclear_mean_with_threshold nd' t =
       Inr (let avgs = map (\<lambda>s. mean_of (top_values t (raw_values s)))
                         (filter (\<lambda>s. raw_values s \<noteq> [] \<and> top_values t (raw_values s) \<noteq> [])
                            (stroke_data nd'))
            in if avgs = [] then 0 else sum_list avgs / real (length avgs))"
    by (rule recalculate_nuclear_mean_eq)
qed

text \<open>A run with a short and a long segment: anchors (0,0), (3,4), (12,16) and a
  profile of nine pixels give the boundaries 0, 2, 8.\<close>

lemma measure_nuclear_example:
  "measure_nuclear_membrane_detailed 50
     (Some \<lparr>xpoints = [0, 3, 12], ypoints = [0, 4, 16], npoints = 3\<rparr>)
     (Some [10, 20, 30, 40, 50, 60, 70, 80, 90]) =
   Inr (Some \<lparr>full_profile = [10, 20, 30, 40, 50, 60, 70, 80, 90],
              segment_boundaries = [0, 2, 8],
              stroke_data =
                [\<lparr>segment_number = 1, start_index = 0, end_index = 2,
                  raw_values = [10, 20, 30], stroke_top_values = [20, 30],
                  stroke_average = 25\<rparr>,
                 \<lparr>segment_number = 2, start_index = 2, end_index = 8,
                  raw_values = [30, 40, 50, 60, 70, 80, 90],
                  stroke_top_values = [60, 70, 80, 90], stroke_average = 75\<rparr>],
              stroke_averages = [25, 75], overall_mean = 50, n_segments = 2\<rparr>)"
  by (simp add: measure_nuclear_membrane_detailed_def stroke_step_def stroke_avg_def
      top_values_def threshold_idx_def calculate_segment_boundaries_def distance_step_def
      boundary_step_def bind_err_def py_index_def py_sqrt_def py_div_def py_int_def
      py_round_def py_slice_def py_slice_from_def slice_bound_def upt_rec)

theorem overall_mean_unweighted_witness:
  "\<exists>nd. measure_nuclear_membrane_detailed 50
           (Some \<lparr>xpoints = [0, 3, 12], ypoints = [0, 4, 16], npoints = 3\<rparr>)
           (Some [10, 20, 30, 40, 50, 60, 70, 80, 90]) = Inr (Some nd)
        \<and> map raw_values (stroke_data nd) = [[10, 20, 30], [30, 40, 50, 60, 70, 80, 90]]
        \<and> stroke_averages nd = [25, 75]
        \<and> overall_mean nd = 50
        \<and> overall_mean nd = sum_list (stroke_averages nd) / real (length (stroke_averages nd))"
proof -
  let ?nd = "\<lparr>full_profile = [10, 20, 30, 40, 50, 60, 70, 80, 90],
              segment_boundaries = [0, 2, 8],
              stroke_data =
                [\<lparr>segment_number = 1, start_index = 0, end_index = 2,
                  raw_values = [10, 20, 30], stroke_top_values = [20, 30],
                  stroke_average = 25\<rparr>,
                 \<lparr>segment_number = 2, start_index = 2, end_index = 8,
                  raw_values = [30, 40, 50, 60, 70, 80, 90],
                  stroke_top_values = [60, 70, 80, 90], stroke_average = 75\<rparr>],
              stroke_averages = [25, 75], overall_mean = 50, n_segments = 2\<rparr>"
  have h: "measure_nuclear_membrane_detailed 50
           (Some \<lparr>xpoints = [0, 3, 12], ypoints = [0, 4, 16], npoints = 3\<rparr>)
           (Some [10, 20, 30, 40, 50, 60, 70, 80, 90]) = Inr (Some ?nd)"
    by (rule measure_nuclear_example)
  have "overall_mean ?nd
          = sum_list (stroke_averages ?nd) / real (length (stroke_averages ?nd))"
    using overall_mean_unweighted [THEN conjunct1, rule_format, OF h] by (elim exE conjE)
  then show ?thesis using h by (intro exI [of _ ?nd]) simp
qed

end
